theory Spec2Isabelle
  imports Main "HOL-Library.Finite_Map"
begin

section \<open>Key material and dynamically typed values\<close>

text \<open>
  The registry of \<^verbatim>\<open>pkg/config/common.go\<close> is a Go \<^verbatim>\<open>map[string]interface{}\<close>.
  Its values are pointers to the key structs of \<^verbatim>\<open>crypto/rsa\<close> and \<^verbatim>\<open>crypto/ecdsa\<close>,
  or strings (shared secrets). In both libraries the private key struct embeds the
  public key struct as its field \<^verbatim>\<open>PublicKey\<close>.
\<close>

record rsa_PublicKey =
  rsa_N :: int
  rsa_E :: int

record rsa_PrivateKey =
  rsa_PublicKey :: rsa_PublicKey
  rsa_D :: int
  rsa_Primes :: "int list"

record ecdsa_PublicKey =
  ecdsa_Curve :: string
  ecdsa_X :: int
  ecdsa_Y :: int

record ecdsa_PrivateKey =
  ecdsa_PublicKey :: ecdsa_PublicKey
  ecdsa_D :: int

text \<open>A Go pointer is nil or points to a struct.\<close>

datatype 'a pointer = NilPointer | PointerTo 'a

text \<open>
  A value of type \<^verbatim>\<open>interface{}\<close>, by its dynamic type. The five dynamic types that the
  type switches of the source name have a constructor each. \<open>NilInterface\<close> is the nil
  interface value, which has no dynamic type and falls to the default arm of every type
  switch. \<open>OtherValue\<close> stands for a value of any other dynamic type, named by its printed
  form; it is never the nil interface.
\<close>

datatype go_value =
    StringValue string
  | RSAPrivateKeyPtr "rsa_PrivateKey pointer"
  | RSAPublicKeyPtr "rsa_PublicKey pointer"
  | ECDSAPrivateKeyPtr "ecdsa_PrivateKey pointer"
  | ECDSAPublicKeyPtr "ecdsa_PublicKey pointer"
  | OtherValue string
  | NilInterface

text \<open>
  The errors of package \<^verbatim>\<open>jwterrors\<close> that this file returns, with the arguments
  that \<^verbatim>\<open>WithArgs\<close> attaches.
\<close>

datatype error =
    ErrKeyIDNotFound
  | ErrUnsupportedKeyType go_value string
  | ErrUnsupportedConfigKeyType go_value
  | ErrMixedConfigKeyType string string
  | ErrRSAKeysNotFound
  | ErrECDSAKeysNotFound
  | ErrEmptyTokenConfigOrigin
  | ErrUnsupportedTokenConfigOrigin string

text \<open>
  Modelled from the spec: the method \<^verbatim>\<open>WithArgs\<close> of the errors of package \<^verbatim>\<open>jwterrors\<close>
  (\<^verbatim>\<open>pkg/errors\<close>), which \<^verbatim>\<open>common.go\<close> imports. It attaches its arguments to the error,
  which then carries the offending value for diagnostics. The method of that package
  returns nil, and no error, when one of its arguments is the nil interface, and the
  model does the same. A string argument is never the nil interface, so a call whose
  arguments are all strings yields the error itself: there the model writes the error
  directly.
\<close>

definition WithArgs :: "error \<Rightarrow> go_value list \<Rightarrow> error option" where
  "WithArgs e v = (if NilInterface \<in> set v then None else Some e)"

text \<open>
  A call that returns an \<^verbatim>\<open>error\<close> returns nil (\<open>None\<close>) or an error. \<^verbatim>\<open>AddPublicKey\<close>
  can also panic, when it takes the address of a field through a nil pointer.
\<close>

datatype outcome = Returned "error option" | Panicked

section \<open>The configuration\<close>

definition defaultKeyID :: string where
  "defaultKeyID = ''0''"

text \<open>
  \<^verbatim>\<open>CommonTokenConfig\<close> with the fields of the three embedded structs. A Go map is nil
  (\<open>None\<close>) or a finite map.
\<close>

record CommonTokenConfig =
  TokenSignMethod :: string
  TokenName :: string
  TokenOrigin :: string
  TokenLifetime :: int
  EvalExpr :: "string list"
  TokenSecret :: string
  TokenRSADir :: string
  TokenRSAFiles :: "(string, string) fmap option"
  TokenRSAKeys :: "(string, string) fmap option"
  TokenRSAFile :: string
  TokenRSAKey :: string
  TokenECDSADir :: string
  TokenECDSAFiles :: "(string, string) fmap option"
  TokenECDSAKeys :: "(string, string) fmap option"
  TokenECDSAFile :: string
  TokenECDSAKey :: string
  tokenOrigin :: string
  tokenType :: string
  tokenKeys :: "(string, go_value) fmap option"

definition HasRSAKeys :: "CommonTokenConfig \<Rightarrow> bool" where
  "HasRSAKeys c =
     (if TokenRSADir c \<noteq> [] then True
      else if TokenRSAFile c \<noteq> [] then True
      else if TokenRSAKey c \<noteq> [] then True
      else if TokenRSAFiles c \<noteq> None then True
      else if TokenRSAKeys c \<noteq> None then True
      else False)"

definition HasECDSAKeys :: "CommonTokenConfig \<Rightarrow> bool" where
  "HasECDSAKeys c =
     (if TokenECDSADir c \<noteq> [] then True
      else if TokenECDSAFile c \<noteq> [] then True
      else if TokenECDSAKey c \<noteq> [] then True
      else if TokenECDSAFiles c \<noteq> None then True
      else if TokenECDSAKeys c \<noteq> None then True
      else False)"

text \<open>\<^verbatim>\<open>&CommonTokenConfig{}\<close>: every field has the zero value of its type.\<close>

definition NewCommonTokenConfig :: CommonTokenConfig where
  "NewCommonTokenConfig =
     \<lparr> TokenSignMethod = [], TokenName = [], TokenOrigin = [], TokenLifetime = 0,
       EvalExpr = [], TokenSecret = [],
       TokenRSADir = [], TokenRSAFiles = None, TokenRSAKeys = None,
       TokenRSAFile = [], TokenRSAKey = [],
       TokenECDSADir = [], TokenECDSAFiles = None, TokenECDSAKeys = None,
       TokenECDSAFile = [], TokenECDSAKey = [],
       tokenOrigin = [], tokenType = [], tokenKeys = None \<rparr>"

definition GetOrigin :: "CommonTokenConfig \<Rightarrow> string" where
  "GetOrigin c = (if tokenOrigin c = [] then ''unknown'' else tokenOrigin c)"

definition SetOrigin :: "string \<Rightarrow> CommonTokenConfig \<Rightarrow> error option \<times> CommonTokenConfig" where
  "SetOrigin name c =
     (if name = ''config'' \<or> name = ''env'' then (None, c\<lparr>tokenOrigin := name\<rparr>)
      else if name = ''empty'' then (Some ErrEmptyTokenConfigOrigin, c)
      else (Some (ErrUnsupportedTokenConfigOrigin name), c))"

definition GetKeys :: "CommonTokenConfig \<Rightarrow> string \<times> (string, go_value) fmap option" where
  "GetKeys c = (tokenType c, tokenKeys c)"

section \<open>The registry\<close>

text \<open>
  Both insert operations start with
  \<^verbatim>\<open>if c.tokenKeys == nil { c.tokenKeys = make(map[string]interface{}) }\<close>;
  \<open>made_tokenKeys\<close> is the map after that statement.
\<close>

definition made_tokenKeys :: "CommonTokenConfig \<Rightarrow> (string, go_value) fmap" where
  "made_tokenKeys c = (case tokenKeys c of None \<Rightarrow> fmempty | Some m \<Rightarrow> m)"

text \<open>
  The two private-key arms of \<^verbatim>\<open>AddPublicKey\<close>: store the pointer to the embedded public
  key at \<open>keyID\<close>, then at the default key ID when the map has no entry there.
\<close>

definition store_public ::
  "string \<Rightarrow> go_value \<Rightarrow> (string, go_value) fmap \<Rightarrow> (string, go_value) fmap" where
  "store_public keyID pub m =
     (let m1 = fmupd keyID pub m
      in if defaultKeyID |\<notin>| fmdom m1 then fmupd defaultKeyID pub m1 else m1)"

definition AddPublicKey ::
  "string \<Rightarrow> go_value \<Rightarrow> CommonTokenConfig \<Rightarrow> outcome \<times> CommonTokenConfig" where
  "AddPublicKey keyID keyMaterial c =
     (if keyID = [] then (Returned (Some ErrKeyIDNotFound), c)
      else
        let m = made_tokenKeys c in
        (case keyMaterial of
           RSAPrivateKeyPtr p \<Rightarrow>
             (case p of
                NilPointer \<Rightarrow> (Panicked, c\<lparr>tokenKeys := Some m\<rparr>)
              | PointerTo privkey \<Rightarrow>
                  (Returned None,
                   c\<lparr>tokenKeys := Some (store_public keyID
                        (RSAPublicKeyPtr (PointerTo (rsa_PublicKey privkey))) m)\<rparr>))
         | ECDSAPrivateKeyPtr p \<Rightarrow>
             (case p of
                NilPointer \<Rightarrow> (Panicked, c\<lparr>tokenKeys := Some m\<rparr>)
              | PointerTo privkey \<Rightarrow>
                  (Returned None,
                   c\<lparr>tokenKeys := Some (store_public keyID
                        (ECDSAPublicKeyPtr (PointerTo (ecdsa_PublicKey privkey))) m)\<rparr>))
         | RSAPublicKeyPtr p \<Rightarrow>
             (Returned None, c\<lparr>tokenKeys := Some (fmupd keyID keyMaterial m)\<rparr>)
         | ECDSAPublicKeyPtr p \<Rightarrow>
             (Returned None, c\<lparr>tokenKeys := Some (fmupd keyID keyMaterial m)\<rparr>)
         | _ \<Rightarrow>
             (Returned (WithArgs (ErrUnsupportedKeyType keyMaterial keyID)
                [keyMaterial, StringValue keyID]),
              c\<lparr>tokenKeys := Some m\<rparr>)))"

text \<open>
  \<^verbatim>\<open>for keyID, k := range c.tokenKeys\<close> visits every entry once, in an order that Go
  leaves unspecified. The order is a parameter of the model: the list of the map's keys
  in the order in which this run of the loop visits them.
\<close>

fun range_tokenKeys ::
  "string list \<Rightarrow> (string, go_value) fmap \<Rightarrow> (go_value \<times> string) option" where
  "range_tokenKeys [] m = None"
| "range_tokenKeys (keyID # rest) m =
     (if keyID = defaultKeyID then range_tokenKeys rest m
      else
        (case fmlookup m keyID of
           Some (RSAPrivateKeyPtr p) \<Rightarrow> Some (RSAPrivateKeyPtr p, keyID)
         | Some (ECDSAPrivateKeyPtr p) \<Rightarrow> Some (ECDSAPrivateKeyPtr p, keyID)
         | _ \<Rightarrow> range_tokenKeys rest m))"

definition GetPrivateKey ::
  "string list \<Rightarrow> CommonTokenConfig \<Rightarrow> error + (go_value \<times> string)" where
  "GetPrivateKey order c =
     (case tokenKeys c of
        None \<Rightarrow> Inl ErrRSAKeysNotFound
      | Some m \<Rightarrow>
          (case range_tokenKeys order m of
             Some found \<Rightarrow> Inr found
           | None \<Rightarrow>
               if tokenType c = ''ecdsa'' then Inl ErrECDSAKeysNotFound
               else Inl ErrRSAKeysNotFound))"

text \<open>
  The default arm of \<^verbatim>\<open>getKeyType\<close> returns the empty string together with what \<^verbatim>\<open>WithArgs\<close>
  returns. When that is nil, the caller receives the empty string and no error.
\<close>

definition getKeyType :: "go_value \<Rightarrow> error + string" where
  "getKeyType k =
     (case k of
        StringValue s \<Rightarrow> Inr ''secret''
      | RSAPrivateKeyPtr p \<Rightarrow> Inr ''rsa''
      | RSAPublicKeyPtr p \<Rightarrow> Inr ''rsa''
      | ECDSAPrivateKeyPtr p \<Rightarrow> Inr ''ecdsa''
      | ECDSAPublicKeyPtr p \<Rightarrow> Inr ''ecdsa''
      | _ \<Rightarrow>
          (case WithArgs (ErrUnsupportedConfigKeyType k) [k] of
             None \<Rightarrow> Inr []
           | Some err \<Rightarrow> Inl err))"

definition AddKey ::
  "string \<Rightarrow> go_value \<Rightarrow> CommonTokenConfig \<Rightarrow> error option \<times> CommonTokenConfig" where
  "AddKey k pk c =
     (let c1 = c\<lparr>tokenKeys := Some (made_tokenKeys c)\<rparr> in
      case getKeyType pk of
        Inl err \<Rightarrow> (Some err, c1)
      | Inr keyType \<Rightarrow>
          let c2 = (if tokenType c1 = [] then c1\<lparr>tokenType := keyType\<rparr> else c1) in
          if tokenType c2 \<noteq> keyType
          then (Some (ErrMixedConfigKeyType (tokenType c2) keyType), c2)
          else (None, c2\<lparr>tokenKeys := Some (fmupd k pk (made_tokenKeys c2))\<rparr>))"

text \<open>
  \<^verbatim>\<open>len(c.tokenKeys)\<close>; the length of a nil map is 0.
\<close>

definition len_tokenKeys :: "CommonTokenConfig \<Rightarrow> nat" where
  "len_tokenKeys c = (case tokenKeys c of None \<Rightarrow> 0 | Some m \<Rightarrow> fcard (fmdom m))"

text \<open>
  \<^verbatim>\<open>LoadKeys\<close> ends in a call of the method \<^verbatim>\<open>load\<close>, which another file of the package
  defines. The model takes it as the parameter \<open>load\<close>.
\<close>

definition LoadKeys ::
  "(CommonTokenConfig \<Rightarrow> error option \<times> CommonTokenConfig) \<Rightarrow>
   CommonTokenConfig \<Rightarrow> error option \<times> CommonTokenConfig" where
  "LoadKeys load c = (if len_tokenKeys c > 0 then (None, c) else load c)"

section \<open>Notions used to state the properties\<close>

text \<open>
  Reading a nil map gives what reading the empty map gives, so \<open>made_tokenKeys c\<close> is
  also the content of the registry of \<open>c\<close>, whether \<^verbatim>\<open>tokenKeys\<close> is nil or not.
\<close>

abbreviation registry :: "CommonTokenConfig \<Rightarrow> (string, go_value) fmap" where
  "registry c \<equiv> made_tokenKeys c"

text \<open>The dynamic types that the type switches treat as private and as public keys.\<close>

fun is_private_key :: "go_value \<Rightarrow> bool" where
  "is_private_key (RSAPrivateKeyPtr p) = True"
| "is_private_key (ECDSAPrivateKeyPtr p) = True"
| "is_private_key v = False"

fun is_public_key :: "go_value \<Rightarrow> bool" where
  "is_public_key (RSAPublicKeyPtr p) = True"
| "is_public_key (ECDSAPublicKeyPtr p) = True"
| "is_public_key v = False"

text \<open>
  \<^verbatim>\<open>tokenType\<close> is written by \<^verbatim>\<open>AddKey\<close> only, after the map has been made: while the
  map is nil, no family is committed.
\<close>

definition family_after_make :: "CommonTokenConfig \<Rightarrow> bool" where
  "family_after_make c = (tokenKeys c = None \<longrightarrow> tokenType c = [])"

text \<open>
  A list of insertions through \<^verbatim>\<open>AddPublicKey\<close>, performed in order as long as each call
  returns nil; the first call that returns an error or panics ends the run.
\<close>

fun AddPublicKey_each ::
  "(string \<times> go_value) list \<Rightarrow> CommonTokenConfig \<Rightarrow> outcome \<times> CommonTokenConfig" where
  "AddPublicKey_each [] c = (Returned None, c)"
| "AddPublicKey_each ((keyID, keyMaterial) # rest) c =
     (case AddPublicKey keyID keyMaterial c of
        (Returned None, c') \<Rightarrow> AddPublicKey_each rest c'
      | (Returned (Some err), c') \<Rightarrow> (Returned (Some err), c')
      | (Panicked, c') \<Rightarrow> (Panicked, c'))"

text \<open>
  The calls of this file that write the configuration, and the configuration that a
  caller holds after a list of them, whatever each call returned.
\<close>

datatype call =
    CallAddKey string go_value
  | CallAddPublicKey string go_value
  | CallSetOrigin string

fun perform :: "call \<Rightarrow> CommonTokenConfig \<Rightarrow> CommonTokenConfig" where
  "perform (CallAddKey k pk) c = snd (AddKey k pk c)"
| "perform (CallAddPublicKey keyID keyMaterial) c = snd (AddPublicKey keyID keyMaterial c)"
| "perform (CallSetOrigin name) c = snd (SetOrigin name c)"

fun perform_all :: "call list \<Rightarrow> CommonTokenConfig \<Rightarrow> CommonTokenConfig" where
  "perform_all [] c = c"
| "perform_all (x # xs) c = perform_all xs (perform x c)"

text \<open>Key material used in the examples: textbook-sized keys.\<close>

definition example_rsa_key :: rsa_PrivateKey where
  "example_rsa_key =
     \<lparr> rsa_PublicKey = \<lparr> rsa_N = 3233, rsa_E = 17 \<rparr>, rsa_D = 2753, rsa_Primes = [61, 53] \<rparr>"

definition other_rsa_key :: rsa_PrivateKey where
  "other_rsa_key =
     \<lparr> rsa_PublicKey = \<lparr> rsa_N = 8633, rsa_E = 5 \<rparr>, rsa_D = 5069, rsa_Primes = [89, 97] \<rparr>"

definition example_ecdsa_key :: ecdsa_PrivateKey where
  "example_ecdsa_key =
     \<lparr> ecdsa_PublicKey = \<lparr> ecdsa_Curve = ''P-256'', ecdsa_X = 5, ecdsa_Y = 1 \<rparr>, ecdsa_D = 7 \<rparr>"

section \<open>Properties\<close>

lemma New_private_fields [simp]:
  "tokenOrigin NewCommonTokenConfig = []"
  "tokenType NewCommonTokenConfig = []"
  "tokenKeys NewCommonTokenConfig = None"
  by (simp_all add: NewCommonTokenConfig_def)

subsection \<open>Key classification\<close>

text \<open>
  \<^verbatim>\<open>getKeyType\<close> depends on its argument only. A string classifies as \<open>secret\<close>, an RSA
  private or public key pointer as \<open>rsa\<close>, an ECDSA private or public key pointer as
  \<open>ecdsa\<close>, and a value of any other dynamic type fails with
  \<open>ErrUnsupportedConfigKeyType\<close> carrying the value. An RSA private key and the public key
  embedded in it both classify as \<open>rsa\<close>.
\<close>

lemma getKeyType_typed_values:
  "getKeyType (StringValue s) = Inr ''secret''
   \<and> getKeyType (RSAPrivateKeyPtr p) = Inr ''rsa''
   \<and> getKeyType (RSAPublicKeyPtr q) = Inr ''rsa''
   \<and> getKeyType (ECDSAPrivateKeyPtr p') = Inr ''ecdsa''
   \<and> getKeyType (ECDSAPublicKeyPtr q') = Inr ''ecdsa''
   \<and> getKeyType (OtherValue t) = Inl (ErrUnsupportedConfigKeyType (OtherValue t))
   \<and> getKeyType (RSAPrivateKeyPtr (PointerTo privkey)) = Inr ''rsa''
   \<and> getKeyType (RSAPublicKeyPtr (PointerTo (rsa_PublicKey privkey))) = Inr ''rsa''"
  by (simp add: getKeyType_def WithArgs_def)

lemma getKeyType_total:
  "getKeyType k = Inr ''secret'' \<or> getKeyType k = Inr ''rsa'' \<or> getKeyType k = Inr ''ecdsa''
   \<or> getKeyType k = Inl (ErrUnsupportedConfigKeyType k) \<or> k = NilInterface"
  by (cases k) (simp_all add: getKeyType_def WithArgs_def)

subsection \<open>Configured key sources\<close>

text \<open>
  C10. \<^verbatim>\<open>HasRSAKeys\<close> is true exactly when one of the five RSA fields is set, and
  \<^verbatim>\<open>HasECDSAKeys\<close> likewise for the five ECDSA fields: a string field is set when it is
  not empty, a map field when it is not nil. A map that is not nil but empty therefore
  makes the predicate true.
\<close>

theorem HasKeys_iff:
  "(HasRSAKeys c \<longleftrightarrow>
      TokenRSADir c \<noteq> [] \<or> TokenRSAFile c \<noteq> [] \<or> TokenRSAKey c \<noteq> []
      \<or> TokenRSAFiles c \<noteq> None \<or> TokenRSAKeys c \<noteq> None)
   \<and> (HasECDSAKeys c \<longleftrightarrow>
      TokenECDSADir c \<noteq> [] \<or> TokenECDSAFile c \<noteq> [] \<or> TokenECDSAKey c \<noteq> []
      \<or> TokenECDSAFiles c \<noteq> None \<or> TokenECDSAKeys c \<noteq> None)
   \<and> HasRSAKeys (c\<lparr>TokenRSAFiles := Some fmempty\<rparr>)
   \<and> HasRSAKeys (c\<lparr>TokenRSAKeys := Some fmempty\<rparr>)
   \<and> HasECDSAKeys (c\<lparr>TokenECDSAFiles := Some fmempty\<rparr>)
   \<and> HasECDSAKeys (c\<lparr>TokenECDSAKeys := Some fmempty\<rparr>)"
  by (simp add: HasRSAKeys_def HasECDSAKeys_def)

theorem HasKeys_iff_witness:
  "\<not> HasRSAKeys NewCommonTokenConfig \<and> \<not> HasECDSAKeys NewCommonTokenConfig
   \<and> HasRSAKeys (NewCommonTokenConfig\<lparr>TokenRSAFiles := Some fmempty\<rparr>)
   \<and> HasECDSAKeys (NewCommonTokenConfig\<lparr>TokenECDSAKeys := Some fmempty\<rparr>)
   \<and> HasRSAKeys (NewCommonTokenConfig\<lparr>TokenRSAKey := ''pem''\<rparr>)"
  using HasKeys_iff [of NewCommonTokenConfig]
    HasKeys_iff [of "NewCommonTokenConfig\<lparr>TokenRSAKey := ''pem''\<rparr>"]
  by (simp add: NewCommonTokenConfig_def)

subsection \<open>Origin of the configuration\<close>

text \<open>
  C6. \<^verbatim>\<open>SetOrigin\<close> returns nil exactly for the names \<open>config\<close> and \<open>env\<close>, and then
  records the name, which \<^verbatim>\<open>GetOrigin\<close> returns. It fails with
  \<open>ErrEmptyTokenConfigOrigin\<close> for the name \<open>empty\<close> and with
  \<open>ErrUnsupportedTokenConfigOrigin\<close> for every other name. A failing call leaves the
  configuration as it was, so \<^verbatim>\<open>GetOrigin\<close> still returns \<open>unknown\<close> when no origin had
  been recorded, as it does for a new configuration.
\<close>

theorem SetOrigin_spec:
  "(name = ''config'' \<or> name = ''env'' \<longrightarrow>
      SetOrigin name c = (None, c\<lparr>tokenOrigin := name\<rparr>)
      \<and> GetOrigin (snd (SetOrigin name c)) = name)
   \<and> (name = ''empty'' \<longrightarrow> SetOrigin name c = (Some ErrEmptyTokenConfigOrigin, c))
   \<and> (name \<noteq> ''config'' \<and> name \<noteq> ''env'' \<and> name \<noteq> ''empty'' \<longrightarrow>
      SetOrigin name c = (Some (ErrUnsupportedTokenConfigOrigin name), c))
   \<and> (fst (SetOrigin name c) = None \<longleftrightarrow> name = ''config'' \<or> name = ''env'')
   \<and> (fst (SetOrigin name c) \<noteq> None \<longrightarrow> snd (SetOrigin name c) = c)
   \<and> (fst (SetOrigin name c) \<noteq> None \<and> tokenOrigin c = [] \<longrightarrow>
      GetOrigin (snd (SetOrigin name c)) = ''unknown'')
   \<and> GetOrigin NewCommonTokenConfig = ''unknown''"
  by (simp add: SetOrigin_def GetOrigin_def)

theorem SetOrigin_spec_witness:
  "SetOrigin ''env'' NewCommonTokenConfig
     = (None, NewCommonTokenConfig\<lparr>tokenOrigin := ''env''\<rparr>)
   \<and> GetOrigin (snd (SetOrigin ''env'' NewCommonTokenConfig)) = ''env''
   \<and> SetOrigin ''empty'' NewCommonTokenConfig
     = (Some ErrEmptyTokenConfigOrigin, NewCommonTokenConfig)
   \<and> SetOrigin ''bogus'' NewCommonTokenConfig
     = (Some (ErrUnsupportedTokenConfigOrigin ''bogus''), NewCommonTokenConfig)
   \<and> GetOrigin (snd (SetOrigin ''bogus'' NewCommonTokenConfig)) = ''unknown''"
proof -
  have env: "''env'' = ''config'' \<or> ''env'' = ''env''"
    by simp
  have bogus: "''bogus'' \<noteq> ''config'' \<and> ''bogus'' \<noteq> ''env'' \<and> ''bogus'' \<noteq> ''empty''"
    by simp
  note e = SetOrigin_spec [of "''env''" NewCommonTokenConfig]
  note m = SetOrigin_spec [of "''empty''" NewCommonTokenConfig]
  note b = SetOrigin_spec [of "''bogus''" NewCommonTokenConfig]
  from e env
  have 1: "SetOrigin ''env'' NewCommonTokenConfig
             = (None, NewCommonTokenConfig\<lparr>tokenOrigin := ''env''\<rparr>)"
    and 2: "GetOrigin (snd (SetOrigin ''env'' NewCommonTokenConfig)) = ''env''"
    by blast+
  from m
  have 3: "SetOrigin ''empty'' NewCommonTokenConfig
             = (Some ErrEmptyTokenConfigOrigin, NewCommonTokenConfig)"
    by blast
  from b bogus
  have 4: "SetOrigin ''bogus'' NewCommonTokenConfig
             = (Some (ErrUnsupportedTokenConfigOrigin ''bogus''), NewCommonTokenConfig)"
    by blast
  from b have u: "GetOrigin NewCommonTokenConfig = ''unknown''"
    by simp
  have 5: "GetOrigin (snd (SetOrigin ''bogus'' NewCommonTokenConfig)) = ''unknown''"
    by (simp add: 4 u)
  from 1 2 3 4 5 show ?thesis
    by (intro conjI)
qed

subsection \<open>Facts about the two insert operations\<close>

text \<open>\<^verbatim>\<open>AddPublicKey\<close>: the registry it leaves and the result it returns.\<close>

lemma made_tokenKeys_simps [simp]:
  "made_tokenKeys (c\<lparr>tokenKeys := Some m\<rparr>) = m"
  "made_tokenKeys (c\<lparr>tokenKeys := None\<rparr>) = fmempty"
  "made_tokenKeys (c\<lparr>tokenType := t\<rparr>) = made_tokenKeys c"
  "made_tokenKeys (c\<lparr>tokenOrigin := n\<rparr>) = made_tokenKeys c"
  "made_tokenKeys NewCommonTokenConfig = fmempty"
  by (simp_all add: made_tokenKeys_def)

lemma tokenKeys_made: "tokenKeys c = Some m \<Longrightarrow> c\<lparr>tokenKeys := Some (made_tokenKeys c)\<rparr> = c"
  by (simp add: made_tokenKeys_def)

lemma store_public_lookup:
  "fmlookup (store_public keyID pub m) k =
     (if k = keyID then Some pub
      else if k = defaultKeyID \<and> fmlookup m defaultKeyID = None then Some pub
      else fmlookup m k)"
  by (auto simp add: store_public_def Let_def fmdom_notI fmdom_notD)

lemma AddPublicKey_registry:
  "registry (snd (AddPublicKey keyID km c)) =
     (if keyID = [] then registry c
      else case km of
          RSAPrivateKeyPtr (PointerTo rk) \<Rightarrow>
            store_public keyID (RSAPublicKeyPtr (PointerTo (rsa_PublicKey rk))) (registry c)
        | ECDSAPrivateKeyPtr (PointerTo ek) \<Rightarrow>
            store_public keyID (ECDSAPublicKeyPtr (PointerTo (ecdsa_PublicKey ek))) (registry c)
        | RSAPublicKeyPtr p \<Rightarrow> fmupd keyID km (registry c)
        | ECDSAPublicKeyPtr p \<Rightarrow> fmupd keyID km (registry c)
        | _ \<Rightarrow> registry c)"
  by (simp add: AddPublicKey_def Let_def split: go_value.split pointer.split)

lemma AddPublicKey_fst:
  "fst (AddPublicKey keyID km c) =
     (if keyID = [] then Returned (Some ErrKeyIDNotFound)
      else case km of
          RSAPrivateKeyPtr NilPointer \<Rightarrow> Panicked
        | ECDSAPrivateKeyPtr NilPointer \<Rightarrow> Panicked
        | RSAPrivateKeyPtr (PointerTo rk) \<Rightarrow> Returned None
        | ECDSAPrivateKeyPtr (PointerTo ek) \<Rightarrow> Returned None
        | RSAPublicKeyPtr p \<Rightarrow> Returned None
        | ECDSAPublicKeyPtr p \<Rightarrow> Returned None
        | NilInterface \<Rightarrow> Returned None
        | _ \<Rightarrow> Returned (Some (ErrUnsupportedKeyType km keyID)))"
  by (simp add: AddPublicKey_def Let_def WithArgs_def split: go_value.split pointer.split)

lemma AddPublicKey_empty_keyID:
  "AddPublicKey [] km c = (Returned (Some ErrKeyIDNotFound), c)"
  by (simp add: AddPublicKey_def)

lemma AddPublicKey_new_entries_public:
  "fmlookup (registry (snd (AddPublicKey keyID km c))) k = Some v \<Longrightarrow>
   fmlookup (registry c) k \<noteq> Some v \<Longrightarrow> is_public_key v"
  by (auto simp add: AddPublicKey_registry store_public_lookup
      split: if_splits go_value.splits pointer.splits)

lemma AddPublicKey_default_kept:
  "fmlookup (registry c) defaultKeyID = Some v \<Longrightarrow> keyID \<noteq> defaultKeyID \<Longrightarrow>
   fmlookup (registry (snd (AddPublicKey keyID km c))) defaultKeyID = Some v"
  by (simp add: AddPublicKey_registry store_public_lookup
      split: go_value.splits pointer.splits)

lemma AddPublicKey_each_default_kept:
  "fmlookup (registry c) defaultKeyID = Some v \<Longrightarrow>
   \<forall>(keyID, km) \<in> set ins. keyID \<noteq> defaultKeyID \<Longrightarrow>
   fmlookup (registry (snd (AddPublicKey_each ins c))) defaultKeyID = Some v"
proof (induction ins arbitrary: c)
  case Nil
  then show ?case by simp
next
  case (Cons a ins)
  obtain keyID km where a: "a = (keyID, km)" by (cases a)
  obtain r c' where step: "AddPublicKey keyID km c = (r, c')" by (cases "AddPublicKey keyID km c")
  from Cons.prems a have ne: "keyID \<noteq> defaultKeyID" by simp
  from AddPublicKey_default_kept [OF Cons.prems(1) ne, of km] step
  have kept: "fmlookup (registry c') defaultKeyID = Some v" by simp
  show ?case
  proof (cases r)
    case (Returned e)
    show ?thesis
    proof (cases e)
      case None
      with Returned step a have "AddPublicKey_each (a # ins) c = AddPublicKey_each ins c'"
        by simp
      moreover from Cons.prems(2) have "\<forall>(keyID, km) \<in> set ins. keyID \<noteq> defaultKeyID" by simp
      ultimately show ?thesis using Cons.IH [OF kept] by simp
    next
      case (Some err)
      with Returned step a kept show ?thesis by simp
    qed
  next
    case Panicked
    with step a kept show ?thesis by simp
  qed
qed

text \<open>
  \<^verbatim>\<open>AddKey\<close>: its three results, and the fields that the calls of this file keep.
\<close>

lemma getKeyType_family_nonempty:
  "getKeyType pk = Inr f \<Longrightarrow> pk \<noteq> NilInterface \<Longrightarrow> f \<noteq> []"
  by (auto simp add: getKeyType_def WithArgs_def split: go_value.splits)

lemma AddKey_success:
  "getKeyType pk = Inr f \<Longrightarrow> tokenType c = [] \<or> tokenType c = f \<Longrightarrow>
   AddKey k pk c = (None, c\<lparr>tokenType := f, tokenKeys := Some (fmupd k pk (registry c))\<rparr>)"
  by (auto simp add: AddKey_def Let_def)

lemma AddKey_mixed:
  "getKeyType pk = Inr g \<Longrightarrow> tokenType c \<noteq> [] \<Longrightarrow> tokenType c \<noteq> g \<Longrightarrow>
   AddKey k pk c = (Some (ErrMixedConfigKeyType (tokenType c) g), c\<lparr>tokenKeys := Some (registry c)\<rparr>)"
  by (simp add: AddKey_def Let_def)

lemma AddKey_unsupported:
  "getKeyType pk = Inl e \<Longrightarrow> AddKey k pk c = (Some e, c\<lparr>tokenKeys := Some (registry c)\<rparr>)"
  by (simp add: AddKey_def Let_def)

lemma AddKey_returns_nil:
  "AddKey k pk c = (None, c') \<Longrightarrow> getKeyType pk = Inr f \<Longrightarrow>
   tokenType c' = f \<and> tokenKeys c' \<noteq> None"
  by (auto simp add: AddKey_def Let_def split: if_splits)

lemma AddKey_tokenType_kept: "tokenType c \<noteq> [] \<Longrightarrow> tokenType (snd (AddKey k pk c)) = tokenType c"
  by (simp add: AddKey_def Let_def split: sum.split)

lemma AddKey_tokenKeys_made: "tokenKeys (snd (AddKey k pk c)) \<noteq> None"
  by (simp add: AddKey_def Let_def split: sum.split)

lemma AddPublicKey_tokenType_kept: "tokenType (snd (AddPublicKey keyID km c)) = tokenType c"
  by (simp add: AddPublicKey_def Let_def split: go_value.split pointer.split)

lemma AddPublicKey_tokenKeys_kept:
  "tokenKeys c \<noteq> None \<Longrightarrow> tokenKeys (snd (AddPublicKey keyID km c)) \<noteq> None"
  by (simp add: AddPublicKey_def Let_def split: go_value.split pointer.split)

lemma SetOrigin_keeps:
  "tokenType (snd (SetOrigin name c)) = tokenType c"
  "tokenKeys (snd (SetOrigin name c)) = tokenKeys c"
  by (simp_all add: SetOrigin_def)

lemma perform_family_kept:
  "tokenType c \<noteq> [] \<Longrightarrow> tokenKeys c \<noteq> None \<Longrightarrow>
   tokenType (perform x c) = tokenType c \<and> tokenKeys (perform x c) \<noteq> None"
  by (cases x)
    (simp_all add: AddKey_tokenType_kept AddKey_tokenKeys_made AddPublicKey_tokenType_kept
      AddPublicKey_tokenKeys_kept SetOrigin_keeps)

lemma perform_all_family_kept:
  "tokenType c \<noteq> [] \<Longrightarrow> tokenKeys c \<noteq> None \<Longrightarrow>
   tokenType (perform_all xs c) = tokenType c \<and> tokenKeys (perform_all xs c) \<noteq> None"
proof (induction xs arbitrary: c)
  case Nil
  then show ?case by simp
next
  case (Cons x xs)
  from perform_family_kept [OF Cons.prems]
  have t: "tokenType (perform x c) = tokenType c" and k: "tokenKeys (perform x c) \<noteq> None"
    by simp_all
  from Cons.prems(1) t have "tokenType (perform x c) \<noteq> []" by simp
  from Cons.IH [OF this k] t show ?case by simp
qed

text \<open>
  No call of this file commits a family while the map is nil.
\<close>

lemma family_after_make_New: "family_after_make NewCommonTokenConfig"
  by (simp add: family_after_make_def)

lemma family_after_make_perform: "family_after_make c \<Longrightarrow> family_after_make (perform x c)"
  by (cases x)
    (auto simp add: family_after_make_def AddKey_tokenKeys_made AddPublicKey_tokenType_kept
      SetOrigin_keeps AddPublicKey_def Let_def split: go_value.splits pointer.splits)

lemma family_after_make_perform_all:
  "family_after_make c \<Longrightarrow> family_after_make (perform_all xs c)"
  by (induction xs arbitrary: c) (simp_all add: family_after_make_perform)

text \<open>The loop of \<^verbatim>\<open>GetPrivateKey\<close>, and the length test of \<^verbatim>\<open>LoadKeys\<close>.\<close>

lemma range_tokenKeys_None:
  "range_tokenKeys order m = None \<longleftrightarrow>
     (\<forall>k \<in> set order. k \<noteq> defaultKeyID \<longrightarrow>
        (\<forall>v. fmlookup m k = Some v \<longrightarrow> \<not> is_private_key v))"
  by (induction order) (auto split: option.splits go_value.splits)

lemma range_tokenKeys_Some:
  "range_tokenKeys order m = Some (v, k) \<Longrightarrow>
     k \<in> set order \<and> k \<noteq> defaultKeyID \<and> fmlookup m k = Some v \<and> is_private_key v"
  by (induction order) (auto split: option.splits go_value.splits if_splits)

lemma fcard_fmdom_pos: "0 < fcard (fmdom m) \<longleftrightarrow> m \<noteq> fmempty"
proof -
  have "fcard (fmdom m) = 0 \<longleftrightarrow> fmdom m = {||}"
    by simp
  moreover have "fmdom m = {||} \<longleftrightarrow> m = fmempty"
    by (metis fmdom_empty fmrestrict_fset_dom fmrestrict_fset_null)
  ultimately have "fcard (fmdom m) = 0 \<longleftrightarrow> m = fmempty"
    by simp
  then show ?thesis
    by (cases "fcard (fmdom m)") simp_all
qed

lemma len_tokenKeys_pos: "0 < len_tokenKeys c \<longleftrightarrow> registry c \<noteq> fmempty"
  by (simp add: len_tokenKeys_def made_tokenKeys_def fcard_fmdom_pos split: option.split)

subsection \<open>Inserting a private key into an empty registry\<close>

text \<open>
  C1, as the spec states it, does not hold: no insert operation of the code leaves the
  private key at \<open>k1\<close> and its public key at \<open>0\<close>. \<^verbatim>\<open>AddPublicKey\<close> stores the derived
  public key at \<open>k1\<close>, not the private key; \<^verbatim>\<open>AddKey\<close> stores the private key at \<open>k1\<close> and
  makes no entry at \<open>0\<close>.
\<close>

theorem insert_RSA_private_counterexample:
  "fmlookup (registry (snd (AddPublicKey ''k1'' (RSAPrivateKeyPtr (PointerTo example_rsa_key))
       NewCommonTokenConfig))) ''k1''
     = Some (RSAPublicKeyPtr (PointerTo (rsa_PublicKey example_rsa_key)))
   \<and> fmlookup (registry (snd (AddPublicKey ''k1'' (RSAPrivateKeyPtr (PointerTo example_rsa_key))
       NewCommonTokenConfig))) ''k1''
     \<noteq> Some (RSAPrivateKeyPtr (PointerTo example_rsa_key))
   \<and> fmlookup (registry (snd (AddKey ''k1'' (RSAPrivateKeyPtr (PointerTo example_rsa_key))
       NewCommonTokenConfig))) ''0'' = None
   \<and> fmdom (registry (snd (AddKey ''k1'' (RSAPrivateKeyPtr (PointerTo example_rsa_key))
       NewCommonTokenConfig))) = {|''k1''|}"
  by (simp add: AddPublicKey_registry store_public_lookup AddKey_def getKeyType_def Let_def)

text \<open>
  C1, amended. Let the registry be empty (nil or without entries) and no family be
  committed. \<^verbatim>\<open>AddPublicKey\<close> of an RSA private key at \<open>k1\<close> returns nil and leaves exactly
  two entries, at \<open>k1\<close> and at \<open>0\<close>, both holding the derived public key. \<^verbatim>\<open>AddKey\<close> of the
  same key returns nil and leaves one entry, the private key at \<open>k1\<close>. \<^verbatim>\<open>AddPublicKey\<close>
  followed by \<^verbatim>\<open>AddKey\<close> leaves the private key at \<open>k1\<close> and the derived public key at
  \<open>0\<close>.
\<close>

theorem insert_RSA_private_into_empty:
  assumes empty: "registry c = fmempty" and nofamily: "tokenType c = []"
  shows "fst (AddPublicKey ''k1'' (RSAPrivateKeyPtr (PointerTo rk)) c) = Returned None
     \<and> registry (snd (AddPublicKey ''k1'' (RSAPrivateKeyPtr (PointerTo rk)) c))
        = fmupd ''0'' (RSAPublicKeyPtr (PointerTo (rsa_PublicKey rk)))
            (fmupd ''k1'' (RSAPublicKeyPtr (PointerTo (rsa_PublicKey rk))) fmempty)
     \<and> fmdom (registry (snd (AddPublicKey ''k1'' (RSAPrivateKeyPtr (PointerTo rk)) c)))
        = {|''k1'', ''0''|}
     \<and> fst (AddKey ''k1'' (RSAPrivateKeyPtr (PointerTo rk)) c) = None
     \<and> registry (snd (AddKey ''k1'' (RSAPrivateKeyPtr (PointerTo rk)) c))
        = fmupd ''k1'' (RSAPrivateKeyPtr (PointerTo rk)) fmempty
     \<and> fst (AddKey ''k1'' (RSAPrivateKeyPtr (PointerTo rk))
              (snd (AddPublicKey ''k1'' (RSAPrivateKeyPtr (PointerTo rk)) c))) = None
     \<and> registry (snd (AddKey ''k1'' (RSAPrivateKeyPtr (PointerTo rk))
              (snd (AddPublicKey ''k1'' (RSAPrivateKeyPtr (PointerTo rk)) c))))
        = fmupd ''k1'' (RSAPrivateKeyPtr (PointerTo rk))
            (fmupd ''0'' (RSAPublicKeyPtr (PointerTo (rsa_PublicKey rk))) fmempty)"
proof -
  let ?priv = "RSAPrivateKeyPtr (PointerTo rk)"
  let ?pub = "RSAPublicKeyPtr (PointerTo (rsa_PublicKey rk))"
  let ?c1 = "snd (AddPublicKey ''k1'' ?priv c)"
  have rsa: "getKeyType ?priv = Inr ''rsa''"
    by (simp add: getKeyType_def)
  have 1: "fst (AddPublicKey ''k1'' ?priv c) = Returned None"
    by (simp add: AddPublicKey_fst)
  have 2: "registry ?c1 = fmupd ''0'' ?pub (fmupd ''k1'' ?pub fmempty)"
    using empty by (simp add: AddPublicKey_registry store_public_def defaultKeyID_def)
  have 3: "fmdom (registry ?c1) = {|''k1'', ''0''|}"
    by (simp add: 2) blast
  from nofamily have 4: "AddKey ''k1'' ?priv c
      = (None, c\<lparr>tokenType := ''rsa'', tokenKeys := Some (fmupd ''k1'' ?priv (registry c))\<rparr>)"
    by (intro AddKey_success rsa) simp
  from nofamily have "tokenType ?c1 = []"
    by (simp add: AddPublicKey_tokenType_kept)
  then have 5: "AddKey ''k1'' ?priv ?c1
      = (None, ?c1\<lparr>tokenType := ''rsa'', tokenKeys := Some (fmupd ''k1'' ?priv (registry ?c1))\<rparr>)"
    by (intro AddKey_success rsa) simp
  have 6: "fmupd ''k1'' ?priv (fmupd ''0'' ?pub (fmupd ''k1'' ?pub fmempty))
          = fmupd ''k1'' ?priv (fmupd ''0'' ?pub fmempty)"
    by (rule fmap_ext) simp
  from 1 2 3 show ?thesis
    by (simp add: 4 5 empty 6)
qed

theorem insert_RSA_private_into_empty_witness:
  "registry (snd (AddPublicKey ''k1'' (RSAPrivateKeyPtr (PointerTo example_rsa_key))
       NewCommonTokenConfig))
     = fmupd ''0'' (RSAPublicKeyPtr (PointerTo \<lparr>rsa_N = 3233, rsa_E = 17\<rparr>))
         (fmupd ''k1'' (RSAPublicKeyPtr (PointerTo \<lparr>rsa_N = 3233, rsa_E = 17\<rparr>)) fmempty)
   \<and> registry (snd (AddKey ''k1'' (RSAPrivateKeyPtr (PointerTo example_rsa_key))
       NewCommonTokenConfig))
     = fmupd ''k1'' (RSAPrivateKeyPtr (PointerTo example_rsa_key)) fmempty"
proof -
  have empty: "registry NewCommonTokenConfig = fmempty"
    by simp
  have nofamily: "tokenType NewCommonTokenConfig = []"
    by simp
  note t = insert_RSA_private_into_empty [OF empty nofamily, of example_rsa_key]
  have pub: "rsa_PublicKey example_rsa_key = \<lparr>rsa_N = 3233, rsa_E = 17\<rparr>"
    by (simp add: example_rsa_key_def)
  from t have 1: "registry (snd (AddPublicKey ''k1'' (RSAPrivateKeyPtr (PointerTo example_rsa_key))
       NewCommonTokenConfig))
     = fmupd ''0'' (RSAPublicKeyPtr (PointerTo (rsa_PublicKey example_rsa_key)))
         (fmupd ''k1'' (RSAPublicKeyPtr (PointerTo (rsa_PublicKey example_rsa_key))) fmempty)"
    by (rule conjunct1 [OF conjunct2])
  from t have 2: "registry (snd (AddKey ''k1'' (RSAPrivateKeyPtr (PointerTo example_rsa_key))
       NewCommonTokenConfig))
     = fmupd ''k1'' (RSAPrivateKeyPtr (PointerTo example_rsa_key)) fmempty"
    by (rule conjunct1 [OF conjunct2 [OF conjunct2 [OF conjunct2 [OF conjunct2]]]])
  from 1 2 show ?thesis
    by (simp only: pub) 
qed

subsection \<open>One family per registry\<close>

text \<open>
  C2. \<^verbatim>\<open>AddKey\<close> commits the family of the first key it stores and refuses a key of
  another family with \<open>ErrMixedConfigKeyType\<close>. \<^verbatim>\<open>AddPublicKey\<close> makes no such check and
  commits no family. After \<^verbatim>\<open>AddKey\<close> has stored an RSA private key at \<open>k1\<close>, which commits
  \<open>rsa\<close>, \<^verbatim>\<open>AddPublicKey\<close> of an ECDSA public key at \<open>k2\<close> returns nil and the registry
  holds keys of two families, where \<^verbatim>\<open>AddKey\<close> on the same arguments fails with
  \<open>ErrMixedConfigKeyType rsa ecdsa\<close>. And after \<^verbatim>\<open>AddPublicKey\<close> has stored the public key
  of an RSA key, no family is committed and \<^verbatim>\<open>AddKey\<close> of a shared secret returns nil.
\<close>

theorem AddPublicKey_mixes_families:
  "getKeyType (RSAPrivateKeyPtr (PointerTo example_rsa_key)) = Inr ''rsa''
   \<and> getKeyType (ECDSAPublicKeyPtr (PointerTo (ecdsa_PublicKey example_ecdsa_key))) = Inr ''ecdsa''
   \<and> fst (AddKey ''k1'' (RSAPrivateKeyPtr (PointerTo example_rsa_key)) NewCommonTokenConfig) = None
   \<and> tokenType (snd (AddKey ''k1'' (RSAPrivateKeyPtr (PointerTo example_rsa_key))
        NewCommonTokenConfig)) = ''rsa''
   \<and> fst (AddPublicKey ''k2'' (ECDSAPublicKeyPtr (PointerTo (ecdsa_PublicKey example_ecdsa_key)))
        (snd (AddKey ''k1'' (RSAPrivateKeyPtr (PointerTo example_rsa_key)) NewCommonTokenConfig)))
      = Returned None
   \<and> registry (snd (AddPublicKey ''k2''
        (ECDSAPublicKeyPtr (PointerTo (ecdsa_PublicKey example_ecdsa_key)))
        (snd (AddKey ''k1'' (RSAPrivateKeyPtr (PointerTo example_rsa_key)) NewCommonTokenConfig))))
      = fmupd ''k2'' (ECDSAPublicKeyPtr (PointerTo (ecdsa_PublicKey example_ecdsa_key)))
          (fmupd ''k1'' (RSAPrivateKeyPtr (PointerTo example_rsa_key)) fmempty)
   \<and> fst (AddKey ''k2'' (ECDSAPublicKeyPtr (PointerTo (ecdsa_PublicKey example_ecdsa_key)))
        (snd (AddKey ''k1'' (RSAPrivateKeyPtr (PointerTo example_rsa_key)) NewCommonTokenConfig)))
      = Some (ErrMixedConfigKeyType ''rsa'' ''ecdsa'')
   \<and> fst (AddPublicKey ''k1'' (RSAPrivateKeyPtr (PointerTo example_rsa_key)) NewCommonTokenConfig)
      = Returned None
   \<and> tokenType (snd (AddPublicKey ''k1'' (RSAPrivateKeyPtr (PointerTo example_rsa_key))
        NewCommonTokenConfig)) = []
   \<and> fst (AddKey ''k2'' (StringValue ''s3cret'')
        (snd (AddPublicKey ''k1'' (RSAPrivateKeyPtr (PointerTo example_rsa_key))
           NewCommonTokenConfig))) = None"
proof -
  let ?rsa = "RSAPrivateKeyPtr (PointerTo example_rsa_key)"
  let ?ec = "ECDSAPublicKeyPtr (PointerTo (ecdsa_PublicKey example_ecdsa_key))"
  let ?c1 = "snd (AddKey ''k1'' ?rsa NewCommonTokenConfig)"
  have rsa: "getKeyType ?rsa = Inr ''rsa''" and ec: "getKeyType ?ec = Inr ''ecdsa''"
    by (simp_all add: getKeyType_def)
  have first: "AddKey ''k1'' ?rsa NewCommonTokenConfig
      = (None, NewCommonTokenConfig\<lparr>tokenType := ''rsa'',
           tokenKeys := Some (fmupd ''k1'' ?rsa (registry NewCommonTokenConfig))\<rparr>)"
    by (intro AddKey_success rsa) simp
  then have 1: "fst (AddKey ''k1'' ?rsa NewCommonTokenConfig) = None"
    and 2: "tokenType ?c1 = ''rsa''"
    and reg1: "registry ?c1 = fmupd ''k1'' ?rsa fmempty"
    by simp_all
  have 3: "fst (AddPublicKey ''k2'' ?ec ?c1) = Returned None"
    by (simp add: AddPublicKey_fst)
  have 4: "registry (snd (AddPublicKey ''k2'' ?ec ?c1)) = fmupd ''k2'' ?ec (fmupd ''k1'' ?rsa fmempty)"
    by (simp add: AddPublicKey_registry reg1)
  have "AddKey ''k2'' ?ec ?c1
      = (Some (ErrMixedConfigKeyType (tokenType ?c1) ''ecdsa''),
         ?c1\<lparr>tokenKeys := Some (registry ?c1)\<rparr>)"
    by (intro AddKey_mixed ec) (simp_all add: 2)
  then have 5: "fst (AddKey ''k2'' ?ec ?c1) = Some (ErrMixedConfigKeyType ''rsa'' ''ecdsa'')"
    by (simp add: 2)
  have 6: "fst (AddPublicKey ''k1'' ?rsa NewCommonTokenConfig) = Returned None"
    by (simp add: AddPublicKey_fst)
  have 7: "tokenType (snd (AddPublicKey ''k1'' ?rsa NewCommonTokenConfig)) = []"
    by (simp add: AddPublicKey_tokenType_kept)
  have "AddKey ''k2'' (StringValue ''s3cret'') (snd (AddPublicKey ''k1'' ?rsa NewCommonTokenConfig))
      = (None, (snd (AddPublicKey ''k1'' ?rsa NewCommonTokenConfig))\<lparr>tokenType := ''secret'',
           tokenKeys := Some (fmupd ''k2'' (StringValue ''s3cret'')
             (registry (snd (AddPublicKey ''k1'' ?rsa NewCommonTokenConfig))))\<rparr>)"
    by (intro AddKey_success) (simp_all add: getKeyType_def 7)
  then have 8: "fst (AddKey ''k2'' (StringValue ''s3cret'')
      (snd (AddPublicKey ''k1'' ?rsa NewCommonTokenConfig))) = None"
    by simp
  from rsa ec 1 2 3 4 5 6 7 8 show ?thesis
    by (intro conjI)
qed

text \<open>
  Among calls of \<^verbatim>\<open>AddKey\<close> the family is fixed. Once \<^verbatim>\<open>AddKey\<close> has returned nil for a
  key of family \<open>f\<close> (a key that is not the nil interface), and whatever calls of
  \<^verbatim>\<open>AddKey\<close>, \<^verbatim>\<open>AddPublicKey\<close> and \<^verbatim>\<open>SetOrigin\<close> follow, every call of \<^verbatim>\<open>AddKey\<close> with a key
  of another family \<open>g\<close> fails with \<open>ErrMixedConfigKeyType f g\<close> and leaves the
  configuration as it was.
\<close>

lemma AddKey_family_fixed:
  assumes first: "getKeyType pk = Inr f" "pk \<noteq> NilInterface" "AddKey k pk c = (None, c1)"
    and second: "getKeyType pk' = Inr g" "g \<noteq> f"
  shows "AddKey k' pk' (perform_all calls c1)
           = (Some (ErrMixedConfigKeyType f g), perform_all calls c1)"
proof -
  let ?c = "perform_all calls c1"
  from AddKey_returns_nil [OF first(3) first(1)]
  have c1: "tokenType c1 = f" "tokenKeys c1 \<noteq> None" by simp_all
  from getKeyType_family_nonempty [OF first(1) first(2)] c1 have ne: "tokenType c1 \<noteq> []"
    by simp
  from perform_all_family_kept [OF ne c1(2), of calls] c1
  have t: "tokenType ?c = f" and m: "tokenKeys ?c \<noteq> None" by simp_all
  from m obtain r where r: "tokenKeys ?c = Some r" by blast
  from ne c1 t have "tokenType ?c \<noteq> []" by simp
  moreover from t second(2) have "tokenType ?c \<noteq> g" by simp
  ultimately have "AddKey k' pk' ?c
      = (Some (ErrMixedConfigKeyType (tokenType ?c) g), ?c\<lparr>tokenKeys := Some (registry ?c)\<rparr>)"
    using AddKey_mixed [OF second(1)] by blast
  with t tokenKeys_made [OF r] show ?thesis by simp
qed

subsection \<open>Insertion with an empty key ID\<close>

text \<open>
  C3. \<^verbatim>\<open>AddPublicKey\<close> rejects the empty key ID with \<open>ErrKeyIDNotFound\<close>, for every key value
  and without writing the configuration (lemma \<open>AddPublicKey_empty_keyID\<close>). \<^verbatim>\<open>AddKey\<close> has
  no such check: called on a new configuration with the empty key ID and a shared
  secret, it returns nil and stores the secret under the empty key ID.
\<close>

theorem AddKey_empty_kid_stored:
  "AddKey [] (StringValue ''s3cret'') NewCommonTokenConfig
     = (None, NewCommonTokenConfig\<lparr>tokenType := ''secret'',
          tokenKeys := Some (fmupd [] (StringValue ''s3cret'') fmempty)\<rparr>)
   \<and> fmlookup (registry (snd (AddKey [] (StringValue ''s3cret'') NewCommonTokenConfig))) []
     = Some (StringValue ''s3cret'')
   \<and> AddPublicKey [] (StringValue ''s3cret'') NewCommonTokenConfig
     = (Returned (Some ErrKeyIDNotFound), NewCommonTokenConfig)"
  by (simp add: AddKey_def getKeyType_def Let_def AddPublicKey_def)

subsection \<open>The first private key\<close>

text \<open>
  C4. Let the family be committed only after the map was made (as \<^verbatim>\<open>AddKey\<close> does), and
  let the loop visit the keys of the registry in any order. If no entry at a key ID other
  than \<open>0\<close> holds an RSA or ECDSA private key, \<^verbatim>\<open>GetPrivateKey\<close> fails with
  \<open>ErrECDSAKeysNotFound\<close> when the family is \<open>ecdsa\<close> and with \<open>ErrRSAKeysNotFound\<close>
  otherwise. If some such entry holds a private key, \<^verbatim>\<open>GetPrivateKey\<close> returns an entry of
  the registry that holds a private key, with its key ID, which is not \<open>0\<close>.
\<close>

theorem GetPrivateKey_spec:
  assumes inv: "family_after_make c"
    and order: "distinct order" "fset_of_list order = fmdom (registry c)"
  shows "((\<forall>k v. k \<noteq> defaultKeyID \<and> fmlookup (registry c) k = Some v \<longrightarrow> \<not> is_private_key v) \<longrightarrow>
            GetPrivateKey order c =
              Inl (if tokenType c = ''ecdsa'' then ErrECDSAKeysNotFound else ErrRSAKeysNotFound))
       \<and> ((\<exists>k v. k \<noteq> defaultKeyID \<and> fmlookup (registry c) k = Some v \<and> is_private_key v) \<longrightarrow>
            (\<exists>k v. GetPrivateKey order c = Inr (v, k) \<and> k \<noteq> defaultKeyID
                \<and> fmlookup (registry c) k = Some v \<and> is_private_key v))"
proof (cases "tokenKeys c")
  case None
  with inv have "tokenType c = []" by (simp add: family_after_make_def)
  with None show ?thesis by (simp add: GetPrivateKey_def made_tokenKeys_def)
next
  case (Some m)
  then have reg: "registry c = m" by (simp add: made_tokenKeys_def)
  from order(2) reg have dom: "\<And>k. k \<in> set order \<longleftrightarrow> k |\<in>| fmdom m"
    by (metis fset_of_list_elem)
  show ?thesis
  proof (intro conjI impI)
    assume "\<forall>k v. k \<noteq> defaultKeyID \<and> fmlookup (registry c) k = Some v \<longrightarrow> \<not> is_private_key v"
    with reg have "range_tokenKeys order m = None"
      by (simp add: range_tokenKeys_None)
    with Some show "GetPrivateKey order c =
        Inl (if tokenType c = ''ecdsa'' then ErrECDSAKeysNotFound else ErrRSAKeysNotFound)"
      by (simp add: GetPrivateKey_def)
  next
    assume "\<exists>k v. k \<noteq> defaultKeyID \<and> fmlookup (registry c) k = Some v \<and> is_private_key v"
    then obtain k v where kv: "k \<noteq> defaultKeyID" "fmlookup m k = Some v" "is_private_key v"
      using reg by auto
    from kv(2) have "k |\<in>| fmdom m" by (rule fmdomI)
    with dom have "k \<in> set order" by simp
    with kv have "range_tokenKeys order m \<noteq> None"
      by (auto simp add: range_tokenKeys_None)
    then obtain v' k' where found: "range_tokenKeys order m = Some (v', k')"
      by (cases "range_tokenKeys order m") auto
    from range_tokenKeys_Some [OF found] found Some reg
    show "\<exists>k v. GetPrivateKey order c = Inr (v, k) \<and> k \<noteq> defaultKeyID
        \<and> fmlookup (registry c) k = Some v \<and> is_private_key v"
      by (simp add: GetPrivateKey_def)
  qed
qed

theorem GetPrivateKey_spec_witness:
  "GetPrivateKey [''0'']
     (NewCommonTokenConfig\<lparr>tokenType := ''ecdsa'',
        tokenKeys := Some (fmupd ''0''
          (ECDSAPublicKeyPtr (PointerTo (ecdsa_PublicKey example_ecdsa_key))) fmempty)\<rparr>)
     = Inl ErrECDSAKeysNotFound
   \<and> GetPrivateKey [''k1'', ''0'']
     (NewCommonTokenConfig\<lparr>tokenType := ''rsa'',
        tokenKeys := Some (fmupd ''k1'' (RSAPrivateKeyPtr (PointerTo example_rsa_key))
          (fmupd ''0'' (RSAPrivateKeyPtr (PointerTo other_rsa_key)) fmempty))\<rparr>)
     = Inr (RSAPrivateKeyPtr (PointerTo example_rsa_key), ''k1'')"
proof -
  let ?a = "NewCommonTokenConfig\<lparr>tokenType := ''ecdsa'',
        tokenKeys := Some (fmupd ''0''
          (ECDSAPublicKeyPtr (PointerTo (ecdsa_PublicKey example_ecdsa_key))) fmempty)\<rparr>"
  let ?b = "NewCommonTokenConfig\<lparr>tokenType := ''rsa'',
        tokenKeys := Some (fmupd ''k1'' (RSAPrivateKeyPtr (PointerTo example_rsa_key))
          (fmupd ''0'' (RSAPrivateKeyPtr (PointerTo other_rsa_key)) fmempty))\<rparr>"
  have inv_a: "family_after_make ?a"
    by (simp add: family_after_make_def)
  have ord_a: "distinct [''0'']" "fset_of_list [''0''] = fmdom (registry ?a)"
    by simp_all
  have none_a: "\<forall>k v. k \<noteq> defaultKeyID \<and> fmlookup (registry ?a) k = Some v \<longrightarrow> \<not> is_private_key v"
    by (simp add: defaultKeyID_def)
  from GetPrivateKey_spec [OF inv_a ord_a] none_a
  have "GetPrivateKey [''0''] ?a =
      Inl (if tokenType ?a = ''ecdsa'' then ErrECDSAKeysNotFound else ErrRSAKeysNotFound)"
    by (rule conjunct1 [THEN mp])
  then have a: "GetPrivateKey [''0''] ?a = Inl ErrECDSAKeysNotFound"
    by simp
  have inv_b: "family_after_make ?b"
    by (simp add: family_after_make_def)
  have ord_b: "distinct [''k1'', ''0'']" "fset_of_list [''k1'', ''0''] = fmdom (registry ?b)"
    by simp_all
  have some_b: "\<exists>k v. k \<noteq> defaultKeyID \<and> fmlookup (registry ?b) k = Some v \<and> is_private_key v"
    by (rule exI [of _ "''k1''"], rule exI [of _ "RSAPrivateKeyPtr (PointerTo example_rsa_key)"])
      (simp add: defaultKeyID_def)
  from GetPrivateKey_spec [OF inv_b ord_b] some_b
  have "\<exists>k v. GetPrivateKey [''k1'', ''0''] ?b = Inr (v, k) \<and> k \<noteq> defaultKeyID
      \<and> fmlookup (registry ?b) k = Some v \<and> is_private_key v"
    by (rule conjunct2 [THEN mp])
  then obtain k v where found: "GetPrivateKey [''k1'', ''0''] ?b = Inr (v, k)"
    and k: "k \<noteq> defaultKeyID" and v: "fmlookup (registry ?b) k = Some v"
    by blast
  from k v have "k = ''k1'' \<and> v = RSAPrivateKeyPtr (PointerTo example_rsa_key)"
    by (simp add: defaultKeyID_def split: if_splits)
  with found have b: "GetPrivateKey [''k1'', ''0''] ?b
      = Inr (RSAPrivateKeyPtr (PointerTo example_rsa_key), ''k1'')"
    by simp
  from a b show ?thesis
    by (rule conjI)
qed

subsection \<open>Loading once\<close>

text \<open>
  C5. When the registry holds an entry, \<^verbatim>\<open>LoadKeys\<close> returns nil and leaves the
  configuration as it is, whatever \<^verbatim>\<open>load\<close> would do. In particular, when a first call
  has left an entry in the registry, a second call does nothing.
\<close>

theorem LoadKeys_populated_noop:
  "(fmlookup (registry c) k = Some v \<longrightarrow> LoadKeys load c = (None, c))
   \<and> (fmlookup (registry (snd (LoadKeys load c))) k = Some v \<longrightarrow>
        LoadKeys load (snd (LoadKeys load c)) = (None, snd (LoadKeys load c)))"
proof -
  have "LoadKeys load c' = (None, c')" if "fmlookup (registry c') k = Some v" for c'
  proof -
    from that have "registry c' \<noteq> fmempty" by auto
    then show ?thesis by (simp add: LoadKeys_def len_tokenKeys_pos)
  qed
  then show ?thesis by blast
qed

theorem LoadKeys_populated_noop_witness:
  "fmlookup (registry (snd (LoadKeys (AddKey ''0'' (StringValue ''s3cret'')) NewCommonTokenConfig)))
       ''0'' = Some (StringValue ''s3cret'')
   \<and> LoadKeys (AddKey ''0'' (StringValue ''s3cret''))
       (snd (LoadKeys (AddKey ''0'' (StringValue ''s3cret'')) NewCommonTokenConfig))
     = (None, snd (LoadKeys (AddKey ''0'' (StringValue ''s3cret'')) NewCommonTokenConfig))"
proof -
  let ?load = "AddKey ''0'' (StringValue ''s3cret'')"
  have entry: "fmlookup (registry (snd (LoadKeys ?load NewCommonTokenConfig))) ''0''
      = Some (StringValue ''s3cret'')"
    by (simp add: LoadKeys_def len_tokenKeys_def AddKey_def getKeyType_def Let_def)
  from LoadKeys_populated_noop [of NewCommonTokenConfig "''0''" "StringValue ''s3cret''" ?load] entry
  have "LoadKeys ?load (snd (LoadKeys ?load NewCommonTokenConfig))
      = (None, snd (LoadKeys ?load NewCommonTokenConfig))"
    by (rule conjunct2 [THEN mp])
  with entry show ?thesis
    by (rule conjI)
qed

subsection \<open>The default key ID\<close>

text \<open>
  C7. In a run of insertions through \<^verbatim>\<open>AddPublicKey\<close> at key IDs other than \<open>0\<close>, an entry
  that exists at \<open>0\<close> stays as it is, whether the run ends with nil, an error or a panic.
  When there is no entry at \<open>0\<close> and the run starts with an RSA private key, the public
  key derived from that first key is at \<open>0\<close> after the run.
\<close>

theorem AddPublicKey_default_first_writer:
  "(fmlookup (registry c) defaultKeyID = Some v
      \<and> (\<forall>(keyID, km) \<in> set ins. keyID \<noteq> defaultKeyID) \<longrightarrow>
      fmlookup (registry (snd (AddPublicKey_each ins c))) defaultKeyID = Some v)
   \<and> (fmlookup (registry c) defaultKeyID = None \<and> k1 \<noteq> [] \<and> k1 \<noteq> defaultKeyID
      \<and> (\<forall>(keyID, km) \<in> set ins. keyID \<noteq> defaultKeyID) \<longrightarrow>
      fmlookup (registry (snd (AddPublicKey_each ((k1, RSAPrivateKeyPtr (PointerTo rk)) # ins) c)))
        defaultKeyID = Some (RSAPublicKeyPtr (PointerTo (rsa_PublicKey rk))))"
proof (intro conjI impI)
  assume "fmlookup (registry c) defaultKeyID = Some v
      \<and> (\<forall>(keyID, km) \<in> set ins. keyID \<noteq> defaultKeyID)"
  then show "fmlookup (registry (snd (AddPublicKey_each ins c))) defaultKeyID = Some v"
    using AddPublicKey_each_default_kept by blast
next
  let ?pub = "RSAPublicKeyPtr (PointerTo (rsa_PublicKey rk))"
  let ?c1 = "snd (AddPublicKey k1 (RSAPrivateKeyPtr (PointerTo rk)) c)"
  assume a: "fmlookup (registry c) defaultKeyID = None \<and> k1 \<noteq> [] \<and> k1 \<noteq> defaultKeyID
      \<and> (\<forall>(keyID, km) \<in> set ins. keyID \<noteq> defaultKeyID)"
  then have first: "fst (AddPublicKey k1 (RSAPrivateKeyPtr (PointerTo rk)) c) = Returned None"
    by (simp add: AddPublicKey_fst)
  from a have "fmlookup (registry ?c1) defaultKeyID = Some ?pub"
    by (simp add: AddPublicKey_registry store_public_lookup)
  with a have "fmlookup (registry (snd (AddPublicKey_each ins ?c1))) defaultKeyID = Some ?pub"
    using AddPublicKey_each_default_kept by blast
  moreover from first
  have "AddPublicKey_each ((k1, RSAPrivateKeyPtr (PointerTo rk)) # ins) c = AddPublicKey_each ins ?c1"
    by (cases "AddPublicKey k1 (RSAPrivateKeyPtr (PointerTo rk)) c") simp
  ultimately show "fmlookup (registry (snd (AddPublicKey_each
      ((k1, RSAPrivateKeyPtr (PointerTo rk)) # ins) c))) defaultKeyID = Some ?pub"
    by simp
qed

theorem AddPublicKey_default_first_writer_witness:
  "fst (AddPublicKey_each
          [(''k1'', RSAPrivateKeyPtr (PointerTo example_rsa_key)),
           (''k2'', RSAPrivateKeyPtr (PointerTo other_rsa_key))] NewCommonTokenConfig)
     = Returned None
   \<and> fmlookup (registry (snd (AddPublicKey_each
          [(''k2'', RSAPrivateKeyPtr (PointerTo other_rsa_key))]
          (snd (AddPublicKey ''k1'' (RSAPrivateKeyPtr (PointerTo example_rsa_key))
             NewCommonTokenConfig))))) defaultKeyID
     = Some (RSAPublicKeyPtr (PointerTo (rsa_PublicKey example_rsa_key)))
   \<and> fmlookup (registry (snd (AddPublicKey_each
          [(''k1'', RSAPrivateKeyPtr (PointerTo example_rsa_key)),
           (''k2'', RSAPrivateKeyPtr (PointerTo other_rsa_key))] NewCommonTokenConfig)))
        defaultKeyID
     = Some (RSAPublicKeyPtr (PointerTo (rsa_PublicKey example_rsa_key)))"
proof -
  let ?k1 = "RSAPrivateKeyPtr (PointerTo example_rsa_key)"
  let ?k2 = "RSAPrivateKeyPtr (PointerTo other_rsa_key)"
  let ?pub = "RSAPublicKeyPtr (PointerTo (rsa_PublicKey example_rsa_key))"
  let ?c1 = "snd (AddPublicKey ''k1'' ?k1 NewCommonTokenConfig)"
  have ok: "fst (AddPublicKey_each [(''k1'', ?k1), (''k2'', ?k2)] NewCommonTokenConfig)
      = Returned None"
    by (simp add: AddPublicKey_def)
  have rest: "\<forall>(keyID, km) \<in> set [(''k2'', ?k2)]. keyID \<noteq> defaultKeyID"
    by (simp add: defaultKeyID_def)
  have at0: "fmlookup (registry ?c1) defaultKeyID = Some ?pub"
    by (simp add: AddPublicKey_registry store_public_lookup defaultKeyID_def)
  from AddPublicKey_default_first_writer [of ?c1 ?pub "[(''k2'', ?k2)]"] at0 rest
  have kept: "fmlookup (registry (snd (AddPublicKey_each [(''k2'', ?k2)] ?c1))) defaultKeyID
      = Some ?pub"
    by (simp only: simp_thms)
  have free: "fmlookup (registry NewCommonTokenConfig) defaultKeyID = None"
    by simp
  have ids: "''k1'' \<noteq> []" "''k1'' \<noteq> defaultKeyID"
    by (simp_all add: defaultKeyID_def)
  from AddPublicKey_default_first_writer
    [of NewCommonTokenConfig _ "[(''k2'', ?k2)]" "''k1''" example_rsa_key] free ids rest
  have first: "fmlookup (registry (snd (AddPublicKey_each [(''k1'', ?k1), (''k2'', ?k2)]
      NewCommonTokenConfig))) defaultKeyID = Some ?pub"
    by (simp only: simp_thms)
  from ok kept first show ?thesis
    by (intro conjI)
qed

subsection \<open>What AddPublicKey stores\<close>

text \<open>
  Every value that a call of \<^verbatim>\<open>AddPublicKey\<close> puts into the registry is a public key
  pointer. With a key ID that is not empty: a private key is replaced by the public key
  derived from it; a public key is stored as it is; and a value of any other type, a
  shared-secret string included (which \<^verbatim>\<open>getKeyType\<close> accepts as \<open>secret\<close>), is rejected with
  \<open>ErrUnsupportedKeyType\<close> while every entry of the registry stays as it was. Two inputs
  are outside this: the nil interface, treated below, and a nil private key pointer, for
  which the call panics when it takes the address of the embedded public key, before it
  stores anything.
\<close>

lemma AddPublicKey_by_key_material:
  assumes ne: "keyID \<noteq> []"
  shows "(\<forall>k v. fmlookup (registry (snd (AddPublicKey keyID km c))) k = Some v
             \<and> fmlookup (registry c) k \<noteq> Some v \<longrightarrow> is_public_key v)
     \<and> AddPublicKey keyID (RSAPrivateKeyPtr (PointerTo rk)) c =
          (Returned None, c\<lparr>tokenKeys := Some (store_public keyID
             (RSAPublicKeyPtr (PointerTo (rsa_PublicKey rk))) (registry c))\<rparr>)
     \<and> fmlookup (registry (snd (AddPublicKey keyID (RSAPrivateKeyPtr (PointerTo rk)) c))) keyID
          = Some (RSAPublicKeyPtr (PointerTo (rsa_PublicKey rk)))
     \<and> AddPublicKey keyID (ECDSAPrivateKeyPtr (PointerTo ek)) c =
          (Returned None, c\<lparr>tokenKeys := Some (store_public keyID
             (ECDSAPublicKeyPtr (PointerTo (ecdsa_PublicKey ek))) (registry c))\<rparr>)
     \<and> fmlookup (registry (snd (AddPublicKey keyID (ECDSAPrivateKeyPtr (PointerTo ek)) c))) keyID
          = Some (ECDSAPublicKeyPtr (PointerTo (ecdsa_PublicKey ek)))
     \<and> (is_public_key km \<longrightarrow>
          AddPublicKey keyID km c =
            (Returned None, c\<lparr>tokenKeys := Some (fmupd keyID km (registry c))\<rparr>))
     \<and> (\<not> is_public_key km \<and> \<not> is_private_key km \<and> km \<noteq> NilInterface \<longrightarrow>
          fst (AddPublicKey keyID km c) = Returned (Some (ErrUnsupportedKeyType km keyID))
          \<and> registry (snd (AddPublicKey keyID km c)) = registry c)
     \<and> getKeyType (StringValue s) = Inr ''secret''
     \<and> fst (AddPublicKey keyID (StringValue s) c)
          = Returned (Some (ErrUnsupportedKeyType (StringValue s) keyID))
     \<and> registry (snd (AddPublicKey keyID (StringValue s) c)) = registry c
     \<and> fst (AddPublicKey keyID (RSAPrivateKeyPtr NilPointer) c) = Panicked
     \<and> registry (snd (AddPublicKey keyID (RSAPrivateKeyPtr NilPointer) c)) = registry c
     \<and> fst (AddPublicKey keyID (ECDSAPrivateKeyPtr NilPointer) c) = Panicked
     \<and> registry (snd (AddPublicKey keyID (ECDSAPrivateKeyPtr NilPointer) c)) = registry c"
proof -
  have 0: "\<forall>k v. fmlookup (registry (snd (AddPublicKey keyID km c))) k = Some v
             \<and> fmlookup (registry c) k \<noteq> Some v \<longrightarrow> is_public_key v"
    using AddPublicKey_new_entries_public by blast
  have 1: "AddPublicKey keyID (RSAPrivateKeyPtr (PointerTo rk)) c =
          (Returned None, c\<lparr>tokenKeys := Some (store_public keyID
             (RSAPublicKeyPtr (PointerTo (rsa_PublicKey rk))) (registry c))\<rparr>)"
    using ne by (simp add: AddPublicKey_def)
  have 2: "fmlookup (registry (snd (AddPublicKey keyID (RSAPrivateKeyPtr (PointerTo rk)) c))) keyID
          = Some (RSAPublicKeyPtr (PointerTo (rsa_PublicKey rk)))"
    using ne by (simp add: AddPublicKey_registry store_public_lookup)
  have 3: "AddPublicKey keyID (ECDSAPrivateKeyPtr (PointerTo ek)) c =
          (Returned None, c\<lparr>tokenKeys := Some (store_public keyID
             (ECDSAPublicKeyPtr (PointerTo (ecdsa_PublicKey ek))) (registry c))\<rparr>)"
    using ne by (simp add: AddPublicKey_def)
  have 4: "fmlookup (registry (snd (AddPublicKey keyID (ECDSAPrivateKeyPtr (PointerTo ek)) c))) keyID
          = Some (ECDSAPublicKeyPtr (PointerTo (ecdsa_PublicKey ek)))"
    using ne by (simp add: AddPublicKey_registry store_public_lookup)
  have 5: "is_public_key km \<longrightarrow>
          AddPublicKey keyID km c =
            (Returned None, c\<lparr>tokenKeys := Some (fmupd keyID km (registry c))\<rparr>)"
    using ne by (cases km) (simp_all add: AddPublicKey_def)
  have 6: "\<not> is_public_key km \<and> \<not> is_private_key km \<and> km \<noteq> NilInterface \<longrightarrow>
          fst (AddPublicKey keyID km c) = Returned (Some (ErrUnsupportedKeyType km keyID))
          \<and> registry (snd (AddPublicKey keyID km c)) = registry c"
    using ne by (cases km) (simp_all add: AddPublicKey_def WithArgs_def)
  have 7: "getKeyType (StringValue s) = Inr ''secret''"
    by (simp add: getKeyType_def)
  have 8: "fst (AddPublicKey keyID (StringValue s) c)
          = Returned (Some (ErrUnsupportedKeyType (StringValue s) keyID))"
    using ne by (simp add: AddPublicKey_fst)
  have 9: "registry (snd (AddPublicKey keyID (StringValue s) c)) = registry c"
    by (simp add: AddPublicKey_registry)
  have 10: "fst (AddPublicKey keyID (RSAPrivateKeyPtr NilPointer) c) = Panicked"
    "fst (AddPublicKey keyID (ECDSAPrivateKeyPtr NilPointer) c) = Panicked"
    using ne by (simp_all add: AddPublicKey_fst)
  have 11: "registry (snd (AddPublicKey keyID (RSAPrivateKeyPtr NilPointer) c)) = registry c"
    "registry (snd (AddPublicKey keyID (ECDSAPrivateKeyPtr NilPointer) c)) = registry c"
    by (simp_all add: AddPublicKey_registry)
  from 0 1 2 3 4 5 6 7 8 9 10 11 show ?thesis
    by (intro conjI)
qed

subsection \<open>The nil interface value\<close>



end
